theory Spec2Isabelle
  imports Main
begin

section \<open>Values crossing the boundary\<close>

text \<open>
  An \<^verbatim>\<open>unsafe.Pointer\<close> is an address.  A Go type is known by its name.  A func value is
  known by a label for its code and by the parameter types its reflected type lists
  (\<^verbatim>\<open>Type().NumIn()\<close>, \<^verbatim>\<open>Type().In(k)\<close>).
\<close>

type_synonym pointer = nat

type_synonym gotype = string

datatype gofunc = GoFunc (fn_label: string) (fn_in: "gotype list")

text \<open>
  \<^verbatim>\<open>closure.FuncStack\<close>: the struct is declared in another file of the package; the
  connector reads its field \<^verbatim>\<open>Func\<close> and hands \<^verbatim>\<open>NewFuncStack\<close> a frame depth, kept here
  as \<open>Frames\<close>.  A \<^verbatim>\<open>*FuncStack\<close> is a \<open>FuncStack option\<close>, \<open>None\<close> being the nil pointer.
\<close>

record FuncStack =
  Func :: gofunc
  Frames :: nat

section \<open>core/closure: the per-object registry\<close>

text \<open>
  \<^verbatim>\<open>type Registry struct { reg sync.Map }\<close>, from closure pointer to \<^verbatim>\<open>*FuncStack\<close>.
  The methods mutate the receiver; here they return the registry after the call.
\<close>

record Registry =
  reg :: "pointer \<rightharpoonup> FuncStack option"

definition NewRegistry :: Registry where
  "NewRegistry = \<lparr>reg = Map.empty\<rparr>"

definition Register :: "Registry \<Rightarrow> pointer \<Rightarrow> FuncStack option \<Rightarrow> Registry" where
  "Register r gclosure callback = r\<lparr>reg := (reg r)(gclosure \<mapsto> callback)\<rparr>"

definition Load :: "Registry \<Rightarrow> pointer \<Rightarrow> FuncStack option" where
  "Load r gclosure = (case reg r gclosure of None \<Rightarrow> None | Some fs \<Rightarrow> fs)"

definition Delete :: "Registry \<Rightarrow> pointer \<Rightarrow> Registry" where
  "Delete r gclosure = r\<lparr>reg := (reg r)(gclosure := None)\<rparr>"

text \<open>A sequence of calls on one registry, for statements about what may come in between.\<close>

datatype regop = OpRegister pointer "FuncStack option" | OpLoad pointer | OpDelete pointer

fun apply_op :: "Registry \<Rightarrow> regop \<Rightarrow> Registry" where
  "apply_op r (OpRegister g cb) = Register r g cb"
| "apply_op r (OpLoad g) = r"
| "apply_op r (OpDelete g) = Delete r g"

fun writes :: "pointer \<Rightarrow> regop \<Rightarrow> bool" where
  "writes i (OpRegister g cb) = (g = i)"
| "writes i (OpLoad g) = False"
| "writes i (OpDelete g) = (g = i)"

definition run_ops :: "Registry \<Rightarrow> regop list \<Rightarrow> Registry" where
  "run_ops r ops = foldl apply_op r ops"

section \<open>core/closure: the disabled signal table\<close>

text \<open>
  The block of closure.go that is commented out declares a process-wide registry
  \<^verbatim>\<open>closures\<close> and two maps, \<^verbatim>\<open>signalClosures\<close> from handle to closure and
  \<^verbatim>\<open>closureSignals\<close> from closure to handle.  The two maps are the only signal table the
  sources hold; \<^verbatim>\<open>RegisterSignal\<close> and \<^verbatim>\<open>DisconnectSignal\<close> are translated from that block.
\<close>

record SignalTable =
  signalClosures :: "nat \<rightharpoonup> pointer"
  closureSignals :: "pointer \<rightharpoonup> nat"

definition RegisterSignal :: "nat \<Rightarrow> pointer \<Rightarrow> SignalTable \<Rightarrow> SignalTable" where
  "RegisterSignal handle closure t =
     t\<lparr>signalClosures := (signalClosures t)(handle \<mapsto> closure),
       closureSignals := (closureSignals t)(closure \<mapsto> handle)\<rparr>"

text \<open>
  \<^verbatim>\<open>DisconnectSignal\<close> also deletes from the process-wide \<^verbatim>\<open>closures\<close>, which is the
  first component of the state here.
\<close>

definition DisconnectSignal ::
  "nat \<Rightarrow> (pointer \<rightharpoonup> FuncStack) \<times> SignalTable \<Rightarrow> (pointer \<rightharpoonup> FuncStack) \<times> SignalTable" where
  "DisconnectSignal handle s =
     (case signalClosures (snd s) handle of
        Some closure \<Rightarrow>
          ((fst s)(closure := None),
           (snd s)\<lparr>closureSignals := (closureSignals (snd s))(closure := None),
                   signalClosures := (signalClosures (snd s))(handle := None)\<rparr>)
      | None \<Rightarrow> s)"

text \<open>
  Modelled from the spec: \<^verbatim>\<open>Associate(handle, identity)\<close> of the signal association
  table, which no enabled code implements.  It records both directions, as the disabled
  \<^verbatim>\<open>RegisterSignal\<close> does.
\<close>

definition Associate :: "nat \<Rightarrow> pointer \<Rightarrow> SignalTable \<Rightarrow> SignalTable" where
  "Associate handle identity t = RegisterSignal handle identity t"

text \<open>
  Modelled from the spec: \<^verbatim>\<open>Dissociate(handle)\<close> of the signal association table, which
  no enabled code implements.  It removes both directions and is a no-op when the handle is
  absent; these are the two map deletions of the disabled \<^verbatim>\<open>DisconnectSignal\<close>.
\<close>

definition Dissociate :: "nat \<Rightarrow> SignalTable \<Rightarrow> SignalTable" where
  "Dissociate handle t =
     (case signalClosures t handle of
        None \<Rightarrow> t
      | Some identity \<Rightarrow>
          t\<lparr>closureSignals := (closureSignals t)(identity := None),
            signalClosures := (signalClosures t)(handle := None)\<rparr>)"

text \<open>The two maps agree: each direction is the inverse of the other.\<close>

definition bidirectional :: "SignalTable \<Rightarrow> bool" where
  "bidirectional t =
     (\<forall>h c. (signalClosures t h = Some c) = (closureSignals t c = Some h))"

section \<open>glib: values, objects and the native runtime\<close>

text \<open>
  What an \<^verbatim>\<open>interface{}\<close> argument may hold: a func, a \<^verbatim>\<open>*closure.FuncStack\<close> (nil or
  not), or a value of another type.
\<close>

datatype goval = FuncVal gofunc | FuncStackPtr "FuncStack option" | OtherVal gotype

datatype panic = NotAFunc | NoReceiver | ReceiverNotConvertible gotype gotype

text \<open>
  Modelled from the spec: \<^verbatim>\<open>closure.NewFuncStack\<close>, whose file is not among the sources.
  The wrapper is built from the supplied callable and a capture depth used for diagnostics
  only; a callback that is not a callable is a configuration error raised at Connect time.
\<close>

definition NewFuncStack :: "goval \<Rightarrow> nat \<Rightarrow> panic + FuncStack" where
  "NewFuncStack f frameSkip =
     (case f of
        FuncVal g \<Rightarrow> Inr \<lparr>Func = g, Frames = frameSkip\<rparr>
      | FuncStackPtr p \<Rightarrow> Inl NotAFunc
      | OtherVal T \<Rightarrow> Inl NotAFunc)"

text \<open>
  An \<^verbatim>\<open>Object\<close>: its \<^verbatim>\<open>GObject\<close> pointer, and what its method \<^verbatim>\<open>goValue()\<close> (defined
  in another file of the package) returns: \<open>Some T\<close> for a value of dynamic type \<open>T\<close> with a nil
  error, \<open>None\<close> for a non-nil error.
\<close>

record Object =
  GObject :: pointer
  goValue :: "gotype option"

text \<open>The two exported Go functions handed to the native runtime as C callbacks.\<close>

datatype trampoline = C_goMarshal | C_removeClosure

text \<open>The effects of the connector, in program order.\<close>

datatype event =
    EvClosureNewSimple pointer
  | EvRegister pointer pointer "FuncStack option"
  | EvSetMetaMarshal pointer pointer trampoline
  | EvAddFinalizeNotifier pointer pointer trampoline
  | EvSignalConnect pointer string pointer bool nat

text \<open>
  The state the connector works on.  \<open>Closures w p\<close> is \<^verbatim>\<open>v.box.Closures\<close> of the object
  whose \<^verbatim>\<open>GObject\<close> is \<open>p\<close>: one registry for each object.  \<open>signals\<close> is the signal table
  of the disabled block.  The native runtime allocates closures at \<open>next_closure\<close>, numbers
  handlers from \<open>last_handler\<close>, and knows the signals \<open>signal_names w p\<close> of each object.
  \<open>trace\<close> is the history of effects.
\<close>

record World =
  Closures :: "pointer \<Rightarrow> Registry"
  signals :: SignalTable
  next_closure :: pointer
  last_handler :: nat
  signal_names :: "pointer \<Rightarrow> string list"
  trace :: "event list"

text \<open>
  The calls into GLib, as the connector sees them: each is recorded in the trace;
  \<^verbatim>\<open>g_signal_connect_closure\<close> returns a handler id above zero, or zero when the object has
  no signal of that name.
\<close>

definition g_closure_new_simple :: "World \<Rightarrow> pointer \<times> World" where
  "g_closure_new_simple w =
     (next_closure w,
      w\<lparr>next_closure := Suc (next_closure w),
        trace := trace w @ [EvClosureNewSimple (next_closure w)]\<rparr>)"

definition g_closure_set_meta_marshal :: "pointer \<Rightarrow> pointer \<Rightarrow> trampoline \<Rightarrow> World \<Rightarrow> World" where
  "g_closure_set_meta_marshal closure marshal_data meta_marshal w =
     w\<lparr>trace := trace w @ [EvSetMetaMarshal closure marshal_data meta_marshal]\<rparr>"

definition g_closure_add_finalize_notifier :: "pointer \<Rightarrow> pointer \<Rightarrow> trampoline \<Rightarrow> World \<Rightarrow> World" where
  "g_closure_add_finalize_notifier closure notify_data notify_func w =
     w\<lparr>trace := trace w @ [EvAddFinalizeNotifier closure notify_data notify_func]\<rparr>"

definition g_signal_connect_closure ::
  "pointer \<Rightarrow> string \<Rightarrow> pointer \<Rightarrow> bool \<Rightarrow> World \<Rightarrow> nat \<times> World" where
  "g_signal_connect_closure inst detailed_signal closure after w =
     (if detailed_signal \<in> set (signal_names w inst)
      then (Suc (last_handler w),
            w\<lparr>last_handler := Suc (last_handler w),
              trace := trace w @
                [EvSignalConnect inst detailed_signal closure after (Suc (last_handler w))]\<rparr>)
      else (0, w\<lparr>trace := trace w @ [EvSignalConnect inst detailed_signal closure after 0]\<rparr>))"

section \<open>glib: the signal connector\<close>

definition ClosureCheckReceiver :: bool where
  "ClosureCheckReceiver = False"

text \<open>
  \<^verbatim>\<open>ClosureNew\<close>: a \<^verbatim>\<open>*closure.FuncStack\<close> is taken as it is, anything else goes through
  \<^verbatim>\<open>NewFuncStack(f, 2)\<close>; then the closure is allocated, registered in the object's own
  registry, and given its meta-marshal and its finalize notifier.
\<close>

definition ClosureNew :: "Object \<Rightarrow> goval \<Rightarrow> World \<Rightarrow> (panic + pointer) \<times> World" where
  "ClosureNew v f w =
     (case (case f of
              FuncStackPtr p \<Rightarrow> Inr p
            | FuncVal g \<Rightarrow> map_sum id Some (NewFuncStack f 2)
            | OtherVal T \<Rightarrow> map_sum id Some (NewFuncStack f 2)) of
        Inl e \<Rightarrow> (Inl e, w)
      | Inr fs \<Rightarrow>
          (let gclosure = fst (g_closure_new_simple w);
               w1 = snd (g_closure_new_simple w);
               w2 = w1\<lparr>Closures := (Closures w1)
                         (GObject v := Register (Closures w1 (GObject v)) gclosure fs),
                       trace := trace w1 @ [EvRegister (GObject v) gclosure fs]\<rparr>;
               w3 = g_closure_set_meta_marshal gclosure (GObject v) C_goMarshal w2;
               w4 = g_closure_add_finalize_notifier gclosure (GObject v) C_removeClosure w3
           in (Inr gclosure, w4)))"

text \<open>
  The body of the \<^verbatim>\<open>if ClosureCheckReceiver\<close> block of \<^verbatim>\<open>connectClosure\<close>: \<open>Some\<close> of the
  panic it raises, \<open>None\<close> when it falls through.  \<open>ConvertibleTo\<close> is reflect's relation
  between types.  When \<^verbatim>\<open>goValue\<close> returns an error the type check is skipped.
\<close>

definition receiverCheck ::
  "(gotype \<Rightarrow> gotype \<Rightarrow> bool) \<Rightarrow> Object \<Rightarrow> FuncStack \<Rightarrow> panic option" where
  "receiverCheck ConvertibleTo v fs =
     (case goValue v of
        None \<Rightarrow> None
      | Some objType \<Rightarrow>
          (let fsType = fn_in (Func fs) in
           if length fsType < 1 then Some NoReceiver
           else if \<not> ConvertibleTo objType (fsType ! 0)
             then Some (ReceiverNotConvertible objType (fsType ! 0))
           else None))"

text \<open>
  \<^verbatim>\<open>C.CString(detailedSignal)\<close>: the copy of the Go string handed to GLib, which reads a C
  string up to its first NUL byte.
\<close>

definition CString :: "string \<Rightarrow> string" where
  "CString s = takeWhile (\<lambda>c. c \<noteq> CHR 0x00) s"

text \<open>
  \<^verbatim>\<open>connectClosure\<close>, with the constant \<^verbatim>\<open>ClosureCheckReceiver\<close> as the parameter \<open>check\<close>
  (a build may replace the constant).  GLib is given the C string of the signal name.
  The result is the panic or the signal handle.
\<close>

definition connectClosureWith ::
  "bool \<Rightarrow> (gotype \<Rightarrow> gotype \<Rightarrow> bool) \<Rightarrow> Object \<Rightarrow> bool \<Rightarrow> string \<Rightarrow> goval \<Rightarrow> World
     \<Rightarrow> (panic + nat) \<times> World" where
  "connectClosureWith check ConvertibleTo v after detailedSignal f w =
     (case NewFuncStack f 2 of
        Inl e \<Rightarrow> (Inl e, w)
      | Inr fs \<Rightarrow>
          (case (if check then receiverCheck ConvertibleTo v fs else None) of
             Some e \<Rightarrow> (Inl e, w)
           | None \<Rightarrow>
               (case fst (ClosureNew v (FuncStackPtr (Some fs)) w) of
                  Inl e \<Rightarrow> (Inl e, snd (ClosureNew v (FuncStackPtr (Some fs)) w))
                | Inr gclosure \<Rightarrow>
                    (let r = g_signal_connect_closure (GObject v) (CString detailedSignal)
                               gclosure after
                               (snd (ClosureNew v (FuncStackPtr (Some fs)) w))
                     in (Inr (fst r), snd r)))))"

definition connectClosure ::
  "(gotype \<Rightarrow> gotype \<Rightarrow> bool) \<Rightarrow> Object \<Rightarrow> bool \<Rightarrow> string \<Rightarrow> goval \<Rightarrow> World
     \<Rightarrow> (panic + nat) \<times> World" where
  "connectClosure ConvertibleTo v after detailedSignal f w =
     connectClosureWith ClosureCheckReceiver ConvertibleTo v after detailedSignal f w"

definition Connect ::
  "(gotype \<Rightarrow> gotype \<Rightarrow> bool) \<Rightarrow> Object \<Rightarrow> string \<Rightarrow> goval \<Rightarrow> World \<Rightarrow> (panic + nat) \<times> World" where
  "Connect ConvertibleTo v detailedSignal f w = connectClosure ConvertibleTo v False detailedSignal f w"

definition ConnectAfter ::
  "(gotype \<Rightarrow> gotype \<Rightarrow> bool) \<Rightarrow> Object \<Rightarrow> string \<Rightarrow> goval \<Rightarrow> World \<Rightarrow> (panic + nat) \<times> World" where
  "ConnectAfter ConvertibleTo v detailedSignal f w = connectClosure ConvertibleTo v True detailedSignal f w"

section \<open>The trampolines\<close>

text \<open>
  Modelled from the spec: \<^verbatim>\<open>intern.RemoveClosure\<close>, whose package is not among the
  sources.  The finalize trampoline deletes the identity from the registry of the object;
  then, if a signal association exists for the identity, it dissociates the handle.
\<close>

definition RemoveClosure :: "pointer \<Rightarrow> pointer \<Rightarrow> World \<Rightarrow> World" where
  "RemoveClosure obj gclosure w =
     (let w1 = w\<lparr>Closures := (Closures w)(obj := Delete (Closures w obj) gclosure)\<rparr> in
      case closureSignals (signals w1) gclosure of
        None \<Rightarrow> w1
      | Some handle \<Rightarrow> w1\<lparr>signals := Dissociate handle (signals w1)\<rparr>)"

text \<open>The exported \<^verbatim>\<open>removeClosure\<close> hands both pointers to \<^verbatim>\<open>intern.RemoveClosure\<close>.\<close>

definition removeClosure :: "pointer \<Rightarrow> pointer \<Rightarrow> World \<Rightarrow> World" where
  "removeClosure obj gclosure w = RemoveClosure obj gclosure w"

text \<open>
  What the marshal trampoline handles: native values, converted Go arguments, the failures
  the host reports, and the host's record of invocations and reported failures.
\<close>

datatype gvalue = GValue gotype nat

datatype goarg = GoArg gotype nat

datatype failure = ArityError nat nat | ConversionError | CallbackFailure string

record Host =
  invoked :: "(FuncStack \<times> goarg list) list"
  reported :: "failure list"

text \<open>
  Modelled from the spec: the conversion step of the wrapper's invoke operation, whose file
  is not among the sources.  The native sequence is truncated to the declared parameters and
  each value is converted to its parameter type by the conversion table \<open>convert\<close>; one
  failed conversion fails the whole step.
\<close>

definition convert_args ::
  "(gotype \<Rightarrow> gvalue \<Rightarrow> goarg option) \<Rightarrow> gotype list \<Rightarrow> gvalue list \<Rightarrow> goarg list option" where
  "convert_args convert ps args =
     those (map (\<lambda>pv. convert (fst pv) (snd pv)) (zip ps (take (length ps) args)))"

text \<open>
  Modelled from the spec: the marshal trampoline \<^verbatim>\<open>goMarshal\<close>, whose file is not among
  the sources.  The trampoline loads the wrapper; an absent entry is skipped.  Otherwise
  fewer native arguments than declared parameters is an arity failure, reported on the
  host's failure channel; with enough arguments the values are converted and the callable
  is invoked.  A failure of a conversion or of the callable is reported on the same
  channel.  In every case the trampoline returns.  \<open>body\<close> is the behaviour of the
  callable: \<open>Some\<close> of a message when it fails.
\<close>

definition goMarshal ::
  "(gotype \<Rightarrow> gvalue \<Rightarrow> goarg option) \<Rightarrow> (gofunc \<Rightarrow> goarg list \<Rightarrow> string option)
     \<Rightarrow> Registry \<Rightarrow> pointer \<Rightarrow> gvalue list \<Rightarrow> Host \<Rightarrow> Host" where
  "goMarshal convert body r gclosure args h =
     (case Load r gclosure of
        None \<Rightarrow> h
      | Some fs \<Rightarrow>
          (if length args < length (fn_in (Func fs))
           then h\<lparr>reported := reported h @ [ArityError (length (fn_in (Func fs))) (length args)]\<rparr>
           else
             (case convert_args convert (fn_in (Func fs)) args of
                None \<Rightarrow> h\<lparr>reported := reported h @ [ConversionError]\<rparr>
              | Some as \<Rightarrow>
                  (case body (Func fs) as of
                     None \<Rightarrow> h\<lparr>invoked := invoked h @ [(fs, as)]\<rparr>
                   | Some msg \<Rightarrow>
                       h\<lparr>invoked := invoked h @ [(fs, as)],
                         reported := reported h @ [CallbackFailure msg]\<rparr>))))"

section \<open>A small world for the examples\<close>

definition world0 :: World where
  "world0 = \<lparr>Closures = (\<lambda>p. NewRegistry),
             signals = \<lparr>signalClosures = Map.empty, closureSignals = Map.empty\<rparr>,
             next_closure = 100, last_handler = 0,
             signal_names = (\<lambda>p. [''clicked'']), trace = []\<rparr>"

definition button :: Object where
  "button = \<lparr>GObject = 1, goValue = Some ''*gtk.Button''\<rparr>"

definition orphan :: Object where
  "orphan = \<lparr>GObject = 2, goValue = None\<rparr>"

definition same_type :: "gotype \<Rightarrow> gotype \<Rightarrow> bool" where
  "same_type a b = (a = b)"

definition onClicked :: gofunc where
  "onClicked = GoFunc ''onClicked'' [''*gtk.Button'']"

definition onTick :: gofunc where
  "onTick = GoFunc ''onTick'' []"

definition onCount :: gofunc where
  "onCount = GoFunc ''onCount'' [''int'']"

definition onThree :: gofunc where
  "onThree = GoFunc ''onThree'' [''int'', ''int'', ''int'']"

definition convert_any :: "gotype \<Rightarrow> gvalue \<Rightarrow> goarg option" where
  "convert_any T v = (case v of GValue U n \<Rightarrow> Some (GoArg T n))"

definition quiet :: "gofunc \<Rightarrow> goarg list \<Rightarrow> string option" where
  "quiet f as = None"

definition host0 :: Host where
  "host0 = \<lparr>invoked = [], reported = []\<rparr>"

section \<open>The registry: lemmas\<close>

lemma Load_Register_same: "Load (Register r i w) i = w"
  by (simp add: Load_def Register_def)

lemma Load_Register_other: "g \<noteq> i \<Longrightarrow> Load (Register r g w) i = Load r i"
  by (simp add: Load_def Register_def)

lemma Load_Delete_same: "Load (Delete r i) i = None"
  by (simp add: Load_def Delete_def)

lemma Load_Delete_other: "g \<noteq> i \<Longrightarrow> Load (Delete r g) i = Load r i"
  by (simp add: Load_def Delete_def)

lemma reg_apply_op_other: "\<not> writes i op \<Longrightarrow> reg (apply_op r op) i = reg r i"
  by (cases op) (simp_all add: Register_def Delete_def)

lemma reg_run_ops_other:
  "\<forall>op \<in> set ops. \<not> writes i op \<Longrightarrow> reg (run_ops r ops) i = reg r i"
  unfolding run_ops_def
  by (induction ops arbitrary: r) (simp_all add: reg_apply_op_other)

lemma Load_run_ops_other:
  "\<forall>op \<in> set ops. \<not> writes i op \<Longrightarrow> Load (run_ops r ops) i = Load r i"
  by (simp add: Load_def reg_run_ops_other)

lemma Delete_Delete: "Delete (Delete r i) i = Delete r i"
  by (simp add: Delete_def)

lemma Delete_absent: "reg r i = None \<Longrightarrow> Delete r i = r"
  by (simp add: Delete_def fun_upd_idem)

lemma Dissociate_Dissociate: "Dissociate h (Dissociate h t) = Dissociate h t"
  by (simp add: Dissociate_def split: option.splits)

lemma DisconnectSignal_DisconnectSignal:
  "DisconnectSignal h (DisconnectSignal h s) = DisconnectSignal h s"
  by (simp add: DisconnectSignal_def split: option.splits)

lemma DisconnectSignal_table: "snd (DisconnectSignal h (cl, t)) = Dissociate h t"
  by (simp add: DisconnectSignal_def Dissociate_def split: option.splits)

section \<open>The registry: claims\<close>

text \<open>
  C1.  Register, then Load, then Delete round-trip.  After \<open>Register r i w\<close>, and after any
  calls in between that neither delete nor register \<open>i\<close>, \<open>Load\<close> of \<open>i\<close> returns \<open>w\<close>;
  after a \<open>Delete\<close> of \<open>i\<close>, \<open>Load\<close> of \<open>i\<close> returns nil.
\<close>

theorem Register_Load_Delete_roundtrip:
  assumes "\<forall>op \<in> set ops. \<not> writes i op"
  shows "Load (run_ops (Register r i w) ops) i = w \<and>
         Load (Delete (run_ops (Register r i w) ops) i) i = None"
  using assms by (simp add: Load_run_ops_other Load_Register_same Load_Delete_same)

theorem Register_Load_Delete_roundtrip_witness:
  "Load (run_ops (Register NewRegistry 7 (Some \<lparr>Func = GoFunc ''cb'' [''*Button''], Frames = 2\<rparr>))
           [OpRegister 8 None, OpLoad 7, OpDelete 9]) 7
     = Some \<lparr>Func = GoFunc ''cb'' [''*Button''], Frames = 2\<rparr> \<and>
   Load (Delete (run_ops (Register NewRegistry 7 (Some \<lparr>Func = GoFunc ''cb'' [''*Button''], Frames = 2\<rparr>))
           [OpRegister 8 None, OpLoad 7, OpDelete 9]) 7) 7 = None"
  using Register_Load_Delete_roundtrip
    [of "[OpRegister 8 None, OpLoad 7, OpDelete 9]" 7 NewRegistry
        "Some \<lparr>Func = GoFunc ''cb'' [''*Button''], Frames = 2\<rparr>"]
  by simp

text \<open>
  C4.  Deleting twice leaves the registry as deleting once does, and deleting an identity
  the registry does not hold leaves it as it was; \<open>Delete\<close> is a total function, so it never
  fails.  Dissociating a handle twice is the same as dissociating it once, for the table
  operation and for the disabled \<^verbatim>\<open>DisconnectSignal\<close> alike.
\<close>

theorem Delete_idempotent:
  "Delete (Delete r i) i = Delete r i \<and>
   (reg r i = None \<longrightarrow> Delete r i = r) \<and>
   Dissociate h (Dissociate h t) = Dissociate h t \<and>
   DisconnectSignal h (DisconnectSignal h s) = DisconnectSignal h s"
  by (simp add: Delete_Delete Delete_absent Dissociate_Dissociate
      DisconnectSignal_DisconnectSignal)

theorem Delete_idempotent_witness:
  "Delete (Delete NewRegistry 3) 3 = Delete NewRegistry 3 \<and>
   reg NewRegistry 3 = None \<and> Delete NewRegistry 3 = NewRegistry \<and>
   Dissociate 1 (Dissociate 1 (RegisterSignal 1 3 \<lparr>signalClosures = Map.empty, closureSignals = Map.empty\<rparr>))
     = Dissociate 1 (RegisterSignal 1 3 \<lparr>signalClosures = Map.empty, closureSignals = Map.empty\<rparr>) \<and>
   DisconnectSignal 1 (DisconnectSignal 1
       (Map.empty, RegisterSignal 1 3 \<lparr>signalClosures = Map.empty, closureSignals = Map.empty\<rparr>))
     = DisconnectSignal 1
       (Map.empty, RegisterSignal 1 3 \<lparr>signalClosures = Map.empty, closureSignals = Map.empty\<rparr>)"
  using Delete_idempotent
    [of NewRegistry 3 1 "RegisterSignal 1 3 \<lparr>signalClosures = Map.empty, closureSignals = Map.empty\<rparr>"
        "(Map.empty, RegisterSignal 1 3 \<lparr>signalClosures = Map.empty, closureSignals = Map.empty\<rparr>)"]
  by (simp add: NewRegistry_def)

section \<open>The connector: lemmas\<close>

lemma ClosureNew_ptr:
  "ClosureNew v (FuncStackPtr fs) w =
     (Inr (next_closure w),
      w\<lparr>Closures := (Closures w)(GObject v := Register (Closures w (GObject v)) (next_closure w) fs),
        next_closure := Suc (next_closure w),
        trace := trace w @ [EvClosureNewSimple (next_closure w),
                            EvRegister (GObject v) (next_closure w) fs,
                            EvSetMetaMarshal (next_closure w) (GObject v) C_goMarshal,
                            EvAddFinalizeNotifier (next_closure w) (GObject v) C_removeClosure]\<rparr>)"
  by (simp add: ClosureNew_def g_closure_new_simple_def g_closure_set_meta_marshal_def
      g_closure_add_finalize_notifier_def Let_def)

lemma signals_g_signal_connect_closure:
  "signals (snd (g_signal_connect_closure i s c a w)) = signals w"
  by (simp add: g_signal_connect_closure_def)

lemma trace_g_signal_connect_closure:
  "trace (snd (g_signal_connect_closure i s c a w)) =
     trace w @ [EvSignalConnect i s c a (fst (g_signal_connect_closure i s c a w))]"
  by (simp add: g_signal_connect_closure_def)

lemma Closures_g_signal_connect_closure:
  "Closures (snd (g_signal_connect_closure i s c a w)) = Closures w"
  by (simp add: g_signal_connect_closure_def)

lemma signals_connectClosureWith:
  "signals (snd (connectClosureWith check cv v after s f w)) = signals w"
  by (simp add: connectClosureWith_def ClosureNew_ptr signals_g_signal_connect_closure Let_def
      split: sum.splits option.splits)

lemma connectClosureWith_func:
  "connectClosureWith False cv v after s (FuncVal g) w =
     (let r = g_signal_connect_closure (GObject v) (CString s) (next_closure w) after
                (snd (ClosureNew v (FuncStackPtr (Some \<lparr>Func = g, Frames = 2\<rparr>)) w))
      in (Inr (fst r), snd r))"
  by (simp add: connectClosureWith_def NewFuncStack_def ClosureNew_ptr)

lemma receiverCheck_skipped:
  "goValue v = None \<Longrightarrow>
   connectClosureWith True cv v after s f w = connectClosureWith False cv v after s f w"
  by (cases f) (simp_all add: connectClosureWith_def NewFuncStack_def receiverCheck_def)

lemma CString_stops_at_NUL: "CString (''clicked'' @ CHR 0x00 # ''junk'') = ''clicked''"
  by (simp add: CString_def)

lemma CString_no_NUL: "CHR 0x00 \<notin> set s \<Longrightarrow> CString s = s"
  by (auto simp add: CString_def)

lemma connectClosureWith_not_func:
  "(\<forall>g. f \<noteq> FuncVal g) \<Longrightarrow> connectClosureWith check cv v after s f w = (Inl NotAFunc, w)"
  by (cases f) (simp_all add: connectClosureWith_def NewFuncStack_def)

lemma connectClosure_func_result:
  "fst (connectClosure cv v after s (FuncVal g) w) =
     Inr (if CString s \<in> set (signal_names w (GObject v)) then Suc (last_handler w) else 0)"
  by (simp add: connectClosure_def ClosureCheckReceiver_def connectClosureWith_func Let_def
      ClosureNew_ptr g_signal_connect_closure_def)

lemma connectClosure_func_Closures:
  "Closures (snd (connectClosure cv v after s (FuncVal g) w)) =
     (Closures w)(GObject v :=
        Register (Closures w (GObject v)) (next_closure w) (Some \<lparr>Func = g, Frames = 2\<rparr>))"
  by (simp add: connectClosure_def ClosureCheckReceiver_def connectClosureWith_func Let_def
      Closures_g_signal_connect_closure ClosureNew_ptr)

lemmas example_defs = world0_def button_def orphan_def same_type_def onClicked_def onTick_def
  onCount_def NewRegistry_def

lemmas connector_defs = Connect_def ConnectAfter_def connectClosure_def connectClosureWith_def
  ClosureCheckReceiver_def receiverCheck_def ClosureNew_def NewFuncStack_def
  g_closure_new_simple_def g_closure_set_meta_marshal_def g_closure_add_finalize_notifier_def
  g_signal_connect_closure_def CString_def Let_def

section \<open>The connector: claims\<close>

text \<open>
  C7.  \<open>ClosureNew\<close> wraps a raw func by \<^verbatim>\<open>NewFuncStack(f, 2)\<close> and then goes on as for a
  wrapper.  It works in this order: it allocates the closure, registers the wrapper
  under the closure's identity, installs \<^verbatim>\<open>goMarshal\<close> as the meta-marshal and then
  \<^verbatim>\<open>removeClosure\<close> as the finalize notifier.  The registry it writes is the one of the
  connecting object: the registry of every other object is as before.  In \<open>connectClosure\<close>
  the connection to the signal, under the C string of its name, comes after all four steps.
\<close>

theorem ClosureNew_order:
  "ClosureNew v (FuncVal g) w = ClosureNew v (FuncStackPtr (Some \<lparr>Func = g, Frames = 2\<rparr>)) w \<and>
   fst (ClosureNew v (FuncStackPtr fs) w) = Inr (next_closure w) \<and>
   trace (snd (ClosureNew v (FuncStackPtr fs) w)) =
     trace w @ [EvClosureNewSimple (next_closure w),
                EvRegister (GObject v) (next_closure w) fs,
                EvSetMetaMarshal (next_closure w) (GObject v) C_goMarshal,
                EvAddFinalizeNotifier (next_closure w) (GObject v) C_removeClosure] \<and>
   Load (Closures (snd (ClosureNew v (FuncStackPtr fs) w)) (GObject v)) (next_closure w) = fs \<and>
   (\<forall>p. p \<noteq> GObject v \<longrightarrow> Closures (snd (ClosureNew v (FuncStackPtr fs) w)) p = Closures w p) \<and>
   trace (snd (connectClosure cv v after s (FuncVal g) w)) =
     trace w @ [EvClosureNewSimple (next_closure w),
                EvRegister (GObject v) (next_closure w) (Some \<lparr>Func = g, Frames = 2\<rparr>),
                EvSetMetaMarshal (next_closure w) (GObject v) C_goMarshal,
                EvAddFinalizeNotifier (next_closure w) (GObject v) C_removeClosure,
                EvSignalConnect (GObject v) (CString s) (next_closure w) after
                  (case fst (connectClosure cv v after s (FuncVal g) w) of
                     Inl e \<Rightarrow> 0 | Inr c \<Rightarrow> c)]"
proof -
  have raw: "ClosureNew v (FuncVal g) w =
      ClosureNew v (FuncStackPtr (Some \<lparr>Func = g, Frames = 2\<rparr>)) w"
    by (simp add: ClosureNew_def NewFuncStack_def)
  have a: "fst (ClosureNew v (FuncStackPtr fs) w) = Inr (next_closure w)"
    by (simp add: ClosureNew_ptr)
  have b: "trace (snd (ClosureNew v (FuncStackPtr fs) w)) =
     trace w @ [EvClosureNewSimple (next_closure w),
                EvRegister (GObject v) (next_closure w) fs,
                EvSetMetaMarshal (next_closure w) (GObject v) C_goMarshal,
                EvAddFinalizeNotifier (next_closure w) (GObject v) C_removeClosure]"
    by (simp add: ClosureNew_ptr)
  have c: "Load (Closures (snd (ClosureNew v (FuncStackPtr fs) w)) (GObject v)) (next_closure w) = fs"
    by (simp add: ClosureNew_ptr Load_Register_same)
  have d: "\<forall>p. p \<noteq> GObject v \<longrightarrow>
      Closures (snd (ClosureNew v (FuncStackPtr fs) w)) p = Closures w p"
    by (simp add: ClosureNew_ptr)
  have e: "trace (snd (connectClosure cv v after s (FuncVal g) w)) =
     trace w @ [EvClosureNewSimple (next_closure w),
                EvRegister (GObject v) (next_closure w) (Some \<lparr>Func = g, Frames = 2\<rparr>),
                EvSetMetaMarshal (next_closure w) (GObject v) C_goMarshal,
                EvAddFinalizeNotifier (next_closure w) (GObject v) C_removeClosure,
                EvSignalConnect (GObject v) (CString s) (next_closure w) after
                  (case fst (connectClosure cv v after s (FuncVal g) w) of
                     Inl e \<Rightarrow> 0 | Inr c \<Rightarrow> c)]"
    by (simp add: connectClosure_def ClosureCheckReceiver_def connectClosureWith_func Let_def
        trace_g_signal_connect_closure ClosureNew_ptr)
  from raw a b c d e show ?thesis by blast
qed

theorem ClosureNew_order_witness:
  "ClosureNew button (FuncVal onClicked) world0
     = ClosureNew button (FuncStackPtr (Some \<lparr>Func = onClicked, Frames = 2\<rparr>)) world0 \<and>
   fst (ClosureNew button (FuncStackPtr (Some \<lparr>Func = onClicked, Frames = 2\<rparr>)) world0) = Inr 100 \<and>
   trace (snd (ClosureNew button (FuncStackPtr (Some \<lparr>Func = onClicked, Frames = 2\<rparr>)) world0)) =
     [EvClosureNewSimple 100,
      EvRegister 1 100 (Some \<lparr>Func = onClicked, Frames = 2\<rparr>),
      EvSetMetaMarshal 100 1 C_goMarshal,
      EvAddFinalizeNotifier 100 1 C_removeClosure] \<and>
   Load (Closures (snd (ClosureNew button (FuncStackPtr (Some \<lparr>Func = onClicked, Frames = 2\<rparr>)) world0)) 1) 100
     = Some \<lparr>Func = onClicked, Frames = 2\<rparr> \<and>
   (2::nat) \<noteq> GObject button \<and>
   Closures (snd (ClosureNew button (FuncStackPtr (Some \<lparr>Func = onClicked, Frames = 2\<rparr>)) world0)) 2
     = Closures world0 2 \<and>
   trace (snd (connectClosure same_type button False ''clicked'' (FuncVal onClicked) world0)) =
     [EvClosureNewSimple 100,
      EvRegister 1 100 (Some \<lparr>Func = onClicked, Frames = 2\<rparr>),
      EvSetMetaMarshal 100 1 C_goMarshal,
      EvAddFinalizeNotifier 100 1 C_removeClosure,
      EvSignalConnect 1 ''clicked'' 100 False 1]"
  using ClosureNew_order
    [where v = button and fs = "Some \<lparr>Func = onClicked, Frames = 2\<rparr>" and w = world0
       and cv = same_type and after = False and s = "''clicked''" and g = onClicked]
  by (simp add: connectClosure_func_result CString_def) (simp add: world0_def button_def)

text \<open>
  C9.  \<^verbatim>\<open>ClosureCheckReceiver\<close> is the constant false.  So \<open>connectClosure\<close>, and with it
  \<open>Connect\<close> and \<open>ConnectAfter\<close>, is \<open>connectClosureWith\<close> with the check off, and its
  result does not depend on the
  convertibility relation or on what \<^verbatim>\<open>goValue\<close> returns: the validation block is never
  run.  It never raises either panic of the block, and for a func callback it returns the
  handle that the native connect returned for the C string of the signal name.
\<close>

theorem ClosureCheckReceiver_off:
  "\<not> ClosureCheckReceiver \<and>
   Connect cv v s f w = connectClosureWith False cv' (v\<lparr>goValue := x\<rparr>) False s f w \<and>
   ConnectAfter cv v s f w = connectClosureWith False cv' (v\<lparr>goValue := x\<rparr>) True s f w \<and>
   connectClosure cv v after s f w = connectClosureWith False cv' (v\<lparr>goValue := x\<rparr>) after s f w \<and>
   fst (connectClosure cv v after s f w) \<noteq> Inl NoReceiver \<and>
   fst (connectClosure cv v after s f w) \<noteq> Inl (ReceiverNotConvertible a b) \<and>
   fst (connectClosure cv v after s (FuncVal g) w) =
     Inr (if CString s \<in> set (signal_names w (GObject v)) then Suc (last_handler w) else 0)"
proof -
  have off: "\<not> ClosureCheckReceiver"
    by (simp add: ClosureCheckReceiver_def)
  have indep: "connectClosure cv v after s f w =
      connectClosureWith False cv' (v\<lparr>goValue := x\<rparr>) after s f w" for after
    by (cases f)
      (simp_all add: connectClosure_def ClosureCheckReceiver_def connectClosureWith_def
        NewFuncStack_def ClosureNew_ptr)
  have con: "Connect cv v s f w = connectClosureWith False cv' (v\<lparr>goValue := x\<rparr>) False s f w"
    by (simp add: Connect_def indep)
  have aft: "ConnectAfter cv v s f w =
      connectClosureWith False cv' (v\<lparr>goValue := x\<rparr>) True s f w"
    by (simp add: ConnectAfter_def indep)
  have ok: "fst (connectClosure cv v after s (FuncVal g) w) =
      Inr (if CString s \<in> set (signal_names w (GObject v)) then Suc (last_handler w) else 0)"
    by (rule connectClosure_func_result)
  have np: "fst (connectClosure cv v after s f w) \<noteq> Inl NoReceiver \<and>
      fst (connectClosure cv v after s f w) \<noteq> Inl (ReceiverNotConvertible a b)"
  proof (cases f)
    case (FuncVal g')
    then show ?thesis by (simp add: connectClosure_func_result)
  next
    case (FuncStackPtr p)
    then show ?thesis by (simp add: connectClosure_def connectClosureWith_not_func)
  next
    case (OtherVal T)
    then show ?thesis by (simp add: connectClosure_def connectClosureWith_not_func)
  qed
  from off con aft indep [of after] ok np show ?thesis by blast
qed

text \<open>
  C2, as the code has it.  \<open>connectClosure\<close> leaves the signal table as it was, whatever the
  callback: after a connect of a func callback the wrapper is in the registry of the
  connecting object under the new closure's identity, and no association is recorded.
  The pair of map entries for a handle and a closure is written by \<^verbatim>\<open>RegisterSignal\<close>
  alone, which the connector does not call.
\<close>

theorem connectClosure_leaves_signal_table:
  "signals (snd (connectClosure cv v after s f w)) = signals w \<and>
   Load (Closures (snd (connectClosure cv v after s (FuncVal g) w)) (GObject v)) (next_closure w)
     = Some \<lparr>Func = g, Frames = 2\<rparr> \<and>
   signalClosures (RegisterSignal h i t) h = Some i \<and>
   closureSignals (RegisterSignal h i t) i = Some h"
proof -
  have "signals (snd (connectClosure cv v after s f w)) = signals w"
    by (simp add: connectClosure_def signals_connectClosureWith)
  moreover have "Load (Closures (snd (connectClosure cv v after s (FuncVal g) w)) (GObject v))
      (next_closure w) = Some \<lparr>Func = g, Frames = 2\<rparr>"
    by (simp add: connectClosure_func_Closures Load_Register_same)
  moreover have "signalClosures (RegisterSignal h i t) h = Some i"
    by (simp add: RegisterSignal_def)
  moreover have "closureSignals (RegisterSignal h i t) i = Some h"
    by (simp add: RegisterSignal_def)
  ultimately show ?thesis by blast
qed

text \<open>
  C2, as stated, fails: a successful \<open>Connect\<close> on the button returns handle 1 for closure
  100 and registers the wrapper, and the signal table holds neither direction.
\<close>

theorem Connect_records_no_association:
  "fst (Connect same_type button ''clicked'' (FuncVal onClicked) world0) = Inr 1 \<and>
   Load (Closures (snd (Connect same_type button ''clicked'' (FuncVal onClicked) world0)) 1) 100
     = Some \<lparr>Func = onClicked, Frames = 2\<rparr> \<and>
   signalClosures (signals (snd (Connect same_type button ''clicked'' (FuncVal onClicked) world0))) 1
     = None \<and>
   closureSignals (signals (snd (Connect same_type button ''clicked'' (FuncVal onClicked) world0))) 100
     = None"
  by (simp add: connector_defs example_defs Load_def Register_def)

text \<open>
  C5, as the code has it.  \<open>Register\<close> stores the wrapper under the identity whatever the
  registry held: an entry already there is replaced, and no failure is raised
  (\<open>Register\<close> is a total function).
\<close>

theorem Register_overwrites:
  "Load (Register r i w) i = w \<and>
   Load (Register (Register r i w0) i w) i = w \<and>
   reg (Register r i w) = (reg r)(i \<mapsto> w)"
  by (simp add: Load_Register_same) (simp add: Register_def)

text \<open>
  C5, as stated, fails: registering a second wrapper under a live identity replaces the
  first one.
\<close>

theorem Register_live_identity_overwritten:
  "Load (Register NewRegistry 7 (Some \<lparr>Func = onClicked, Frames = 2\<rparr>)) 7
     = Some \<lparr>Func = onClicked, Frames = 2\<rparr> \<and>
   Load (Register (Register NewRegistry 7 (Some \<lparr>Func = onClicked, Frames = 2\<rparr>)) 7
           (Some \<lparr>Func = onTick, Frames = 2\<rparr>)) 7
     = Some \<lparr>Func = onTick, Frames = 2\<rparr> \<and>
   onTick \<noteq> onClicked"
  by (simp add: Load_Register_same onTick_def onClicked_def)

text \<open>
  C6, as the code has it.  With the check on and \<^verbatim>\<open>goValue\<close> returning a value of type
  \<open>T\<close>, a func callback with no parameter, or whose first parameter \<open>T\<close> is not
  convertible to, makes \<open>connectClosure\<close> panic with the whole state unchanged: no closure
  is allocated, no registry and no table entry is made.  With the check on and \<^verbatim>\<open>goValue\<close>
  returning an error, the check is skipped: for every callback the connector does what it
  does with the check off, and for a func callback it proceeds, whatever the parameters:
  it returns the handle of the native connect and the registry of the object holds the
  wrapper under the new closure.
\<close>

theorem receiver_check_aborts:
  "(goValue v = Some T \<longrightarrow> (fn_in g = [] \<or> \<not> cv T (fn_in g ! 0)) \<longrightarrow>
      connectClosureWith True cv v after s (FuncVal g) w =
        (Inl (if fn_in g = [] then NoReceiver else ReceiverNotConvertible T (fn_in g ! 0)), w)) \<and>
   (goValue v = None \<longrightarrow>
      connectClosureWith True cv v after s f w = connectClosureWith False cv v after s f w \<and>
      fst (connectClosureWith True cv v after s (FuncVal g) w) =
        Inr (if CString s \<in> set (signal_names w (GObject v))
             then Suc (last_handler w) else 0) \<and>
      Load (Closures (snd (connectClosureWith True cv v after s (FuncVal g) w)) (GObject v))
          (next_closure w) = Some \<lparr>Func = g, Frames = 2\<rparr>)"
proof (intro conjI impI)
  assume val: "goValue v = Some T" and bad: "fn_in g = [] \<or> \<not> cv T (fn_in g ! 0)"
  show "connectClosureWith True cv v after s (FuncVal g) w =
      (Inl (if fn_in g = [] then NoReceiver else ReceiverNotConvertible T (fn_in g ! 0)), w)"
  proof (cases "fn_in g = []")
    case True
    with val show ?thesis
      by (simp add: connectClosureWith_def NewFuncStack_def receiverCheck_def)
  next
    case False
    with bad have "\<not> cv T (fn_in g ! 0)" by simp
    with False val show ?thesis
      by (simp add: connectClosureWith_def NewFuncStack_def receiverCheck_def)
  qed
next
  assume err: "goValue v = None"
  then show "connectClosureWith True cv v after s f w = connectClosureWith False cv v after s f w"
    by (rule receiverCheck_skipped)
  have off: "connectClosureWith True cv v after s (FuncVal g) w =
      connectClosureWith False cv v after s (FuncVal g) w"
    using err by (rule receiverCheck_skipped)
  show "fst (connectClosureWith True cv v after s (FuncVal g) w) =
      Inr (if CString s \<in> set (signal_names w (GObject v)) then Suc (last_handler w) else 0)"
    by (simp add: off connectClosureWith_func Let_def ClosureNew_ptr g_signal_connect_closure_def)
  show "Load (Closures (snd (connectClosureWith True cv v after s (FuncVal g) w)) (GObject v))
      (next_closure w) = Some \<lparr>Func = g, Frames = 2\<rparr>"
    by (simp add: off connectClosureWith_func Let_def Closures_g_signal_connect_closure
        ClosureNew_ptr Load_Register_same)
qed

theorem receiver_check_aborts_witness:
  "goValue button = Some ''*gtk.Button'' \<and>
   \<not> same_type ''*gtk.Button'' (fn_in onCount ! 0) \<and>
   connectClosureWith True same_type button False ''clicked'' (FuncVal onCount) world0
     = (Inl (ReceiverNotConvertible ''*gtk.Button'' ''int''), world0) \<and>
   goValue orphan = None \<and>
   connectClosureWith True same_type orphan False ''clicked'' (OtherVal ''int'') world0
     = connectClosureWith False same_type orphan False ''clicked'' (OtherVal ''int'') world0 \<and>
   fst (connectClosureWith True same_type orphan False ''clicked'' (FuncVal onCount) world0)
     = Inr 1 \<and>
   Load (Closures (snd (connectClosureWith True same_type orphan False ''clicked''
                          (FuncVal onCount) world0)) 2) 100
     = Some \<lparr>Func = onCount, Frames = 2\<rparr>"
proof -
  have val: "goValue button = Some ''*gtk.Button''"
    by (simp add: button_def)
  have bad: "\<not> same_type ''*gtk.Button'' (fn_in onCount ! 0)"
    by (simp add: same_type_def onCount_def)
  have err: "goValue orphan = None"
    by (simp add: orphan_def)
  note strict = receiver_check_aborts
    [where v = button and T = "''*gtk.Button''" and g = onCount and cv = same_type
       and after = False and s = "''clicked''" and w = world0]
  note skipped = receiver_check_aborts
    [where v = orphan and g = onCount and cv = same_type and after = False
       and s = "''clicked''" and f = "OtherVal ''int''" and w = world0]
  from strict val bad have
    "connectClosureWith True same_type button False ''clicked'' (FuncVal onCount) world0
       = (Inl (ReceiverNotConvertible ''*gtk.Button'' ''int''), world0)"
    by (simp add: onCount_def)
  moreover from skipped err have
    "connectClosureWith True same_type orphan False ''clicked'' (OtherVal ''int'') world0
       = connectClosureWith False same_type orphan False ''clicked'' (OtherVal ''int'') world0"
    by blast
  moreover from skipped err have
    "fst (connectClosureWith True same_type orphan False ''clicked'' (FuncVal onCount) world0)
       = Inr 1"
    by (simp add: CString_def world0_def orphan_def)
  moreover from skipped err have
    "Load (Closures (snd (connectClosureWith True same_type orphan False ''clicked''
                            (FuncVal onCount) world0)) 2) 100
       = Some \<lparr>Func = onCount, Frames = 2\<rparr>"
    by (simp add: world0_def orphan_def)
  ultimately show ?thesis
    using val bad err by blast
qed

text \<open>
  C6, as stated, fails: with the check on, an object whose \<^verbatim>\<open>goValue\<close> returns an error
  and a callback with no parameter at all, the connect succeeds and the registry of the
  object gains an entry.
\<close>

theorem receiver_check_skipped_without_goValue:
  "fn_in onTick = [] \<and>
   fst (connectClosureWith True same_type orphan False ''clicked'' (FuncVal onTick) world0) = Inr 1 \<and>
   Load (Closures world0 2) 100 = None \<and>
   Load (Closures (snd (connectClosureWith True same_type orphan False ''clicked''
                          (FuncVal onTick) world0)) 2) 100
     = Some \<lparr>Func = onTick, Frames = 2\<rparr>"
  by (simp add: connector_defs example_defs Load_def Register_def)

section \<open>The trampolines: lemmas\<close>

lemma Dissociate_present:
  "signalClosures t h = Some g \<Longrightarrow>
   Dissociate h t = t\<lparr>closureSignals := (closureSignals t)(g := None),
                      signalClosures := (signalClosures t)(h := None)\<rparr>"
  by (simp add: Dissociate_def)

lemma bidirectional_Dissociate: "bidirectional t \<Longrightarrow> bidirectional (Dissociate h t)"
proof (cases "signalClosures t h")
  case None
  assume "bidirectional t"
  with None show ?thesis by (simp add: Dissociate_def)
next
  case (Some g)
  assume bi: "bidirectional t"
  have "(signalClosures (Dissociate h t) h' = Some c) = (closureSignals (Dissociate h t) c = Some h')"
    for h' c
    using bi Some unfolding bidirectional_def
    by (simp add: Dissociate_present [OF Some]) (metis option.inject)
  then show ?thesis by (simp add: bidirectional_def)
qed

lemma bidirectional_RegisterSignal:
  assumes "bidirectional t" and "signalClosures t h = None" and "closureSignals t g = None"
  shows "bidirectional (RegisterSignal h g t)"
  using assms unfolding bidirectional_def RegisterSignal_def
  by simp (metis option.distinct(1))

lemma Dissociate_clears:
  assumes "bidirectional t" and "closureSignals t g = Some h"
  shows "closureSignals (Dissociate h t) g = None \<and>
         (\<forall>h'. signalClosures (Dissociate h t) h' \<noteq> Some g)"
proof -
  from assms have sc: "signalClosures t h = Some g"
    by (simp add: bidirectional_def)
  have "signalClosures t h' = Some g \<Longrightarrow> h' = h" for h'
    using assms by (simp add: bidirectional_def)
  then show ?thesis
    by (auto simp add: Dissociate_present [OF sc])
qed

lemma absent_no_handle:
  assumes "bidirectional t" and "closureSignals t g = None"
  shows "signalClosures t h \<noteq> Some g"
  using assms by (auto simp add: bidirectional_def)

lemma those_length: "those xs = Some ys \<Longrightarrow> length ys = length xs"
  by (induction xs arbitrary: ys) (auto split: option.splits)

lemma convert_args_take:
  "convert_args cv ps (take (length ps) args) = convert_args cv ps args"
  by (simp add: convert_args_def)

lemma convert_args_length:
  assumes "convert_args cv ps args = Some as" and "length ps \<le> length args"
  shows "length as = length ps"
  using those_length [OF assms(1) [unfolded convert_args_def]] assms(2) by simp

section \<open>The trampolines: claims\<close>

text \<open>
  C3.  The finalize trampoline for closure \<open>g\<close> of object \<open>obj\<close> deletes \<open>g\<close> from the
  registry of \<open>obj\<close> and, when the table maps \<open>g\<close> to a handle, dissociates that handle.
  Afterwards, with no disconnect before it, the registry of \<open>obj\<close> holds no entry for \<open>g\<close>;
  and on a world whose signal table is bidirectional the table maps \<open>g\<close> to no handle and
  no handle to \<open>g\<close>, and is still bidirectional.
\<close>

theorem removeClosure_removes_entry_and_association:
  "removeClosure obj g w =
     (case closureSignals (signals w) g of
        None \<Rightarrow> w\<lparr>Closures := (Closures w)(obj := Delete (Closures w obj) g)\<rparr>
      | Some h \<Rightarrow> w\<lparr>Closures := (Closures w)(obj := Delete (Closures w obj) g),
                    signals := Dissociate h (signals w)\<rparr>) \<and>
   reg (Closures (removeClosure obj g w) obj) g = None \<and>
   Load (Closures (removeClosure obj g w) obj) g = None \<and>
   (bidirectional (signals w) \<longrightarrow>
      closureSignals (signals (removeClosure obj g w)) g = None \<and>
      (\<forall>h. signalClosures (signals (removeClosure obj g w)) h \<noteq> Some g) \<and>
      bidirectional (signals (removeClosure obj g w)))"
proof -
  have step: "removeClosure obj g w =
     (case closureSignals (signals w) g of
        None \<Rightarrow> w\<lparr>Closures := (Closures w)(obj := Delete (Closures w obj) g)\<rparr>
      | Some h \<Rightarrow> w\<lparr>Closures := (Closures w)(obj := Delete (Closures w obj) g),
                    signals := Dissociate h (signals w)\<rparr>)"
    by (simp add: removeClosure_def RemoveClosure_def split: option.splits)
  have gone: "reg (Closures (removeClosure obj g w) obj) g = None"
    by (simp add: step Delete_def split: option.splits)
  then have load: "Load (Closures (removeClosure obj g w) obj) g = None"
    by (simp add: Load_def)
  have table: "closureSignals (signals (removeClosure obj g w)) g = None \<and>
      (\<forall>h. signalClosures (signals (removeClosure obj g w)) h \<noteq> Some g) \<and>
      bidirectional (signals (removeClosure obj g w))"
    if bi: "bidirectional (signals w)"
  proof (cases "closureSignals (signals w) g")
    case None
    with bi absent_no_handle [OF bi None] show ?thesis
      by (simp add: step)
  next
    case (Some h)
    with Dissociate_clears [OF bi Some] bidirectional_Dissociate [OF bi, of h] show ?thesis
      by (simp add: step)
  qed
  from step gone load table show ?thesis by blast
qed

theorem removeClosure_removes_entry_and_association_witness:
  "bidirectional (signals (world0\<lparr>signals := Associate 1 100 (signals world0)\<rparr>)) \<and>
   closureSignals (signals (world0\<lparr>signals := Associate 1 100 (signals world0)\<rparr>)) 100 = Some 1 \<and>
   Load (Closures (removeClosure 1 100 (world0\<lparr>signals := Associate 1 100 (signals world0)\<rparr>)) 1) 100
     = None \<and>
   closureSignals (signals (removeClosure 1 100
       (world0\<lparr>signals := Associate 1 100 (signals world0)\<rparr>))) 100 = None \<and>
   signalClosures (signals (removeClosure 1 100
       (world0\<lparr>signals := Associate 1 100 (signals world0)\<rparr>))) 1 \<noteq> Some 100"
proof -
  let ?w = "world0\<lparr>signals := Associate 1 100 (signals world0)\<rparr>"
  have bi: "bidirectional (signals ?w)"
    by (auto simp add: bidirectional_def world0_def Associate_def RegisterSignal_def)
  have live: "closureSignals (signals ?w) 100 = Some 1"
    by (simp add: world0_def Associate_def RegisterSignal_def)
  note fin = removeClosure_removes_entry_and_association [of 1 100 ?w]
  from fin have "Load (Closures (removeClosure 1 100 ?w) 1) 100 = None"
    by blast
  moreover from fin bi have "closureSignals (signals (removeClosure 1 100 ?w)) 100 = None"
    by blast
  moreover from fin bi have "signalClosures (signals (removeClosure 1 100 ?w)) 1 \<noteq> Some 100"
    by blast
  ultimately show ?thesis
    using bi live by blast
qed

text \<open>
  C8.  For a registered callback: when the native runtime supplies at least as many values
  as the callback declares parameters, the trampoline behaves as on the sequence truncated
  to the declared count, so the extra values are ignored, and when the conversions and the
  callable succeed the callable is invoked once with exactly that many arguments.  When it
  supplies fewer, nothing is invoked, one arity failure is added to the failure channel,
  and the trampoline returns.
\<close>

theorem goMarshal_relaxed_arity:
  assumes "Load r i = Some fs"
  shows "(length (fn_in (Func fs)) \<le> length args \<longrightarrow>
            goMarshal cv body r i args h
              = goMarshal cv body r i (take (length (fn_in (Func fs))) args) h) \<and>
         (length (fn_in (Func fs)) \<le> length args \<longrightarrow>
            convert_args cv (fn_in (Func fs)) (take (length (fn_in (Func fs))) args) = Some as \<longrightarrow>
            body (Func fs) as = None \<longrightarrow>
              goMarshal cv body r i args h = h\<lparr>invoked := invoked h @ [(fs, as)]\<rparr> \<and>
              length as = length (fn_in (Func fs))) \<and>
         (length args < length (fn_in (Func fs)) \<longrightarrow>
            goMarshal cv body r i args h
              = h\<lparr>reported := reported h @
                    [ArityError (length (fn_in (Func fs))) (length args)]\<rparr>)"
proof (intro conjI impI)
  assume le: "length (fn_in (Func fs)) \<le> length args"
  then show "goMarshal cv body r i args h
      = goMarshal cv body r i (take (length (fn_in (Func fs))) args) h"
    using assms by (simp add: goMarshal_def convert_args_take)
next
  assume le: "length (fn_in (Func fs)) \<le> length args"
    and conv: "convert_args cv (fn_in (Func fs)) (take (length (fn_in (Func fs))) args) = Some as"
    and ok: "body (Func fs) as = None"
  from conv have conv': "convert_args cv (fn_in (Func fs)) args = Some as"
    by (simp add: convert_args_take)
  with assms le ok show "goMarshal cv body r i args h = h\<lparr>invoked := invoked h @ [(fs, as)]\<rparr>"
    by (simp add: goMarshal_def)
  from conv' le show "length as = length (fn_in (Func fs))"
    by (rule convert_args_length)
next
  assume "length args < length (fn_in (Func fs))"
  with assms show "goMarshal cv body r i args h
      = h\<lparr>reported := reported h @ [ArityError (length (fn_in (Func fs))) (length args)]\<rparr>"
    by (simp add: goMarshal_def)
qed

theorem goMarshal_relaxed_arity_witness:
  "Load (Register NewRegistry 100 (Some \<lparr>Func = onCount, Frames = 2\<rparr>)) 100
     = Some \<lparr>Func = onCount, Frames = 2\<rparr> \<and>
   goMarshal convert_any quiet (Register NewRegistry 100 (Some \<lparr>Func = onCount, Frames = 2\<rparr>)) 100
       [GValue ''gint'' 5, GValue ''gint'' 6, GValue ''gint'' 7] host0
     = host0\<lparr>invoked := [(\<lparr>Func = onCount, Frames = 2\<rparr>, [GoArg ''int'' 5])]\<rparr> \<and>
   goMarshal convert_any quiet (Register NewRegistry 100 (Some \<lparr>Func = onThree, Frames = 2\<rparr>)) 100
       [GValue ''gint'' 5] host0
     = host0\<lparr>reported := [ArityError 3 1]\<rparr>"
  using
    goMarshal_relaxed_arity
      [where r = "Register NewRegistry 100 (Some \<lparr>Func = onCount, Frames = 2\<rparr>)" and i = 100
         and fs = "\<lparr>Func = onCount, Frames = 2\<rparr>"
         and args = "[GValue ''gint'' 5, GValue ''gint'' 6, GValue ''gint'' 7]"
         and cv = convert_any and body = quiet and h = host0 and as = "[GoArg ''int'' 5]"]
    goMarshal_relaxed_arity
      [where r = "Register NewRegistry 100 (Some \<lparr>Func = onThree, Frames = 2\<rparr>)" and i = 100
         and fs = "\<lparr>Func = onThree, Frames = 2\<rparr>"
         and args = "[GValue ''gint'' 5]"
         and cv = convert_any and body = quiet and h = host0 and as = "[]"]
  by (simp add: goMarshal_def Load_Register_same convert_args_def convert_any_def quiet_def
      host0_def onCount_def onThree_def)

end
